theory Spec2Isabelle
  imports Complex_Main "HOL-Library.Monad_Syntax"
begin

section \<open>Numerical solution of pipe problems: the notebook's functions\<close>

text \<open>
  The notebook \<^verbatim>\<open>example.ipynb\<close> computes with Python and numpy floating-point numbers.
  In the first part of this theory a finite float is a \<^typ>\<open>real\<close> and arithmetic on
  finite floats is exact: rounding, overflow and underflow are outside that model (the
  last part of the definitions models binary64 rounding for the two head functions).
  What is kept of numpy's scalar arithmetic is the domain of each operation. numpy does
  not raise when an operation leaves its domain: it emits a RuntimeWarning and goes on
  with \<^verbatim>\<open>nan\<close> or an infinity. A value of type \<^typ>\<open>real option\<close> is a float: \<open>Some v\<close>
  is the finite float \<open>v\<close>, and \<open>None\<close> is a float that is not finite (\<^verbatim>\<open>nan\<close>,
  \<^verbatim>\<open>inf\<close> or \<^verbatim>\<open>-inf\<close>).

  A Python exception is the \<open>Inl\<close> branch of a sum type. The notebook itself has no
  \<^verbatim>\<open>raise\<close>, no \<^verbatim>\<open>try\<close> and no \<^verbatim>\<open>assert\<close>: the only exceptions are
  those of the library root finder.
\<close>

subsection \<open>Constants\<close>

text \<open>\<^verbatim>\<open>G = 9.81\<close>, \<^verbatim>\<open>RHO = 1000\<close>, \<^verbatim>\<open>MU = 1e-3\<close>.\<close>

definition G :: real where
  "G = 9.81"

definition RHO :: real where
  "RHO = 1000"

definition MU :: real where
  "MU = 1 / 1000"

subsection \<open>numpy scalar operations with their domains\<close>

text \<open>
  The operations of the residual, on finite operands. Each returns \<open>None\<close> where numpy
  returns a float that is not finite. In the residual a float that is not finite never
  leads back to a finite one (every later operation there keeps \<^verbatim>\<open>nan\<close> and the
  infinities away from the finite floats), so the residual is evaluated in the option
  monad.

  \<^verbatim>\<open>x ** 0.5\<close> on a numpy float: \<^verbatim>\<open>nan\<close> for a negative base.
\<close>

definition pow_half :: "real \<Rightarrow> real option" where
  "pow_half x = (if x < 0 then None else Some (x powr (1 / 2)))"

text \<open>\<^verbatim>\<open>a / b\<close> on numpy floats: an infinity or \<^verbatim>\<open>nan\<close> for a zero divisor.\<close>

definition np_divide :: "real \<Rightarrow> real \<Rightarrow> real option" where
  "np_divide a b = (if b = 0 then None else Some (a / b))"

text \<open>\<^verbatim>\<open>np.log10(x)\<close>: \<^verbatim>\<open>-inf\<close> at zero, \<^verbatim>\<open>nan\<close> below.\<close>

definition np_log10 :: "real \<Rightarrow> real option" where
  "np_log10 x = (if x \<le> 0 then None else Some (log 10 x))"

text \<open>
  In the complete-turbulence value an infinity does lead back to a finite float
  (\<^verbatim>\<open>np.log(0.0)\<close> is \<^verbatim>\<open>-inf\<close>, and \<^verbatim>\<open>inf ** (-2)\<close> is \<^verbatim>\<open>0.0\<close>), so its
  operations keep the three floats that are not finite apart.
\<close>

datatype np_float = Finite real | PInf | NInf | NaN

text \<open>\<^verbatim>\<open>np.log(x)\<close> for a finite \<open>x\<close>: \<^verbatim>\<open>-inf\<close> at zero, \<^verbatim>\<open>nan\<close> below.\<close>

definition np_log :: "real \<Rightarrow> np_float" where
  "np_log x = (if x < 0 then NaN else if x = 0 then NInf else Finite (ln x))"

text \<open>\<^verbatim>\<open>c * y\<close> for a finite \<open>c\<close>.\<close>

fun np_times :: "real \<Rightarrow> np_float \<Rightarrow> np_float" where
  "np_times c (Finite y) = Finite (c * y)"
| "np_times c PInf = (if 0 < c then PInf else if c < 0 then NInf else NaN)"
| "np_times c NInf = (if 0 < c then NInf else if c < 0 then PInf else NaN)"
| "np_times c NaN = NaN"

text \<open>\<^verbatim>\<open>y ** n\<close> for an integer \<open>n\<close>: a zero to a negative power is an infinity (the model
  has one zero and takes \<^verbatim>\<open>inf\<close>), an infinity to a negative power is zero.\<close>

fun np_power_int :: "np_float \<Rightarrow> int \<Rightarrow> np_float" where
  "np_power_int (Finite y) n = (if y = 0 \<and> n < 0 then PInf else Finite (y powi n))"
| "np_power_int PInf n = (if n < 0 then Finite 0 else if n = 0 then Finite 1 else PInf)"
| "np_power_int NInf n =
     (if n < 0 then Finite 0 else if n = 0 then Finite 1 else if even n then PInf else NInf)"
| "np_power_int NaN n = (if n = 0 then Finite 1 else NaN)"

fun finite_value :: "np_float \<Rightarrow> real option" where
  "finite_value (Finite y) = Some y"
| "finite_value PInf = None"
| "finite_value NInf = None"
| "finite_value NaN = None"

subsection \<open>The Colebrook-White residual and the complete-turbulence value\<close>

text \<open>
  \<^verbatim>\<open>
  def colebrook_white(friction_factor, reynolds_number, rel_roughness):
      f = friction_factor
      re = reynolds_number
      rel_eps = rel_roughness
      return 1/f**0.5 + 2*np.log10(rel_eps/3.7 + 2.51/(re*f**0.5))
  \<close>
  The division by the literal \<open>3.7\<close> cannot leave its domain.
\<close>

definition colebrook_white :: "real \<Rightarrow> real \<Rightarrow> real \<Rightarrow> real option" where
  "colebrook_white friction_factor reynolds_number rel_roughness =
     (let f = friction_factor; re = reynolds_number; rel_eps = rel_roughness in
      do {
        s1 \<leftarrow> pow_half f;
        a \<leftarrow> np_divide 1 s1;
        s2 \<leftarrow> pow_half f;
        c \<leftarrow> np_divide 2.51 (re * s2);
        l \<leftarrow> np_log10 (rel_eps / 3.7 + c);
        Some (a + 2 * l)
      })"

text \<open>
  \<^verbatim>\<open>
  def colebrook_white_complete_turbulence(rel_roughness):
      rel_eps = rel_roughness
      return (-2*np.log(rel_eps/3.7))**(-2)
  \<close>
  The logarithm here is \<^verbatim>\<open>np.log\<close>, the natural logarithm. The value is \<^verbatim>\<open>nan\<close> for
  \<^verbatim>\<open>rel_eps < 0\<close>, the finite float \<^verbatim>\<open>0.0\<close> at \<^verbatim>\<open>rel_eps = 0\<close> and \<^verbatim>\<open>inf\<close> at
  \<^verbatim>\<open>rel_eps = 3.7\<close>.
\<close>

definition colebrook_white_complete_turbulence :: "real \<Rightarrow> real option" where
  "colebrook_white_complete_turbulence rel_roughness =
     (let rel_eps = rel_roughness in
      finite_value (np_power_int (np_times (- 2) (np_log (rel_eps / 3.7))) (- 2)))"

subsection \<open>The library root finder and the friction factor\<close>

text \<open>
  \<^verbatim>\<open>scipy.optimize.root_scalar\<close> is a library function, not part of the notebook. It is a
  parameter of the model: a function from the residual and the starting point \<^verbatim>\<open>x0\<close> to
  either an exception (\<open>Inl\<close>) or a result object (\<open>Inr\<close>). The result object has the
  fields of scipy's \<^verbatim>\<open>RootResults\<close>; the root it reports may be \<^verbatim>\<open>nan\<close> (\<open>None\<close>).
\<close>

record RootResults =
  root' :: "real option"
  iterations :: nat
  function_calls :: nat
  converged :: bool
  flag :: string

type_synonym 'e root_scalar = "(real \<Rightarrow> real option) \<Rightarrow> real option \<Rightarrow> 'e + RootResults"

text \<open>
  \<^verbatim>\<open>
  def friction_factor(reynolds_number, rel_roughness):
      re = reynolds_number
      rel_eps = rel_roughness
      f_complete = colebrook_white_complete_turbulence(rel_eps)
      sol = root_scalar(colebrook_white, args=(re, rel_eps), x0=f_complete)
      f = sol['root']
      return f
  \<close>
  The names \<^verbatim>\<open>re\<close>, \<^verbatim>\<open>rel_eps\<close>, \<^verbatim>\<open>f_complete\<close>, \<^verbatim>\<open>sol\<close> and \<^verbatim>\<open>f\<close> are
  local to the function. The field \<^verbatim>\<open>converged\<close> of the result is not read.
\<close>

definition friction_factor :: "'e root_scalar \<Rightarrow> real \<Rightarrow> real \<Rightarrow> 'e + real option" where
  "friction_factor root_scalar reynolds_number rel_roughness =
     (let re = reynolds_number; rel_eps = rel_roughness;
          f_complete = colebrook_white_complete_turbulence rel_eps
      in case root_scalar (\<lambda>f. colebrook_white f re rel_eps) f_complete of
           Inl e \<Rightarrow> Inl e
         | Inr sol \<Rightarrow> Inr (root' sol))"

subsection \<open>The pipe problem\<close>

text \<open>
  Inlet: \<^verbatim>\<open>p_1 = 50\<close>, \<^verbatim>\<open>area_1 = 1e-2 ** 2\<close>, \<^verbatim>\<open>z_1 = 0\<close>.
  Outlet: \<^verbatim>\<open>p_2 = 00\<close>, \<^verbatim>\<open>area_2 = 1e-2 ** 2\<close>, \<^verbatim>\<open>z_2 = 0\<close>.
\<close>

definition p_1 :: real where
  "p_1 = 50"

definition area_1 :: real where
  "area_1 = (1 / 100) ^ 2"

definition z_1 :: real where
  "z_1 = 0"

definition p_2 :: real where
  "p_2 = 0"

definition area_2 :: real where
  "area_2 = (1 / 100) ^ 2"

definition z_2 :: real where
  "z_2 = 0"

text \<open>
  \<^verbatim>\<open>
  def head_1(Q):
      v = (Q/area_1)**2
      return p_1/(RHO*G) + (v)**2/(2*G) + z_1
  \<close>
  \<^verbatim>\<open>
  def head_2(Q):
      v = (Q/area_2)**2
      return p_2/(RHO*G) + (v)**2/(2*G) + z_2
  \<close>
  No divisor is zero.
\<close>

definition head_1 :: "real \<Rightarrow> real" where
  "head_1 Q = (let v = (Q / area_1) ^ 2 in p_1 / (RHO * G) + v ^ 2 / (2 * G) + z_1)"

definition head_2 :: "real \<Rightarrow> real" where
  "head_2 Q = (let v = (Q / area_2) ^ 2 in p_2 / (RHO * G) + v ^ 2 / (2 * G) + z_2)"

text \<open>
  \<^verbatim>\<open>eps = 1e-3\<close>, \<^verbatim>\<open>d_pipe = 10e-2\<close>, \<^verbatim>\<open>rel_eps = 1e-3/d_pipe\<close>, \<^verbatim>\<open>length = 1\<close>,
  \<^verbatim>\<open>area_pipe = np.pi*(d_pipe/2)**2\<close>. The global \<^verbatim>\<open>rel_eps\<close> is the one this cell
  binds, the value \<^verbatim>\<open>head_f\<close> reads when the cells run in order. The global
  \<^verbatim>\<open>length\<close> is named \<open>length_pipe\<close> here.
\<close>

definition eps :: real where
  "eps = 1 / 1000"

definition d_pipe :: real where
  "d_pipe = 10 / 100"

definition rel_eps :: real where
  "rel_eps = (1 / 1000) / d_pipe"

definition length_pipe :: real where
  "length_pipe = 1"

definition area_pipe :: real where
  "area_pipe = pi * (d_pipe / 2) ^ 2"

text \<open>
  \<^verbatim>\<open>
  def head_f(Q):
      v = (Q/area_pipe)**2
      re = RHO*v*d_pipe / MU
      f = friction_factor(re, rel_eps)
      return length/d_pipe * v**2/(2*G)*f
  \<close>
  A \<^verbatim>\<open>nan\<close> friction factor makes the product \<^verbatim>\<open>nan\<close>.
\<close>

definition head_f :: "'e root_scalar \<Rightarrow> real \<Rightarrow> 'e + real option" where
  "head_f root_scalar Q =
     (let v = (Q / area_pipe) ^ 2;
          re = RHO * v * d_pipe / MU
      in case friction_factor root_scalar re rel_eps of
           Inl e \<Rightarrow> Inl e
         | Inr f \<Rightarrow> Inr (map_option (\<lambda>f. length_pipe / d_pipe * v ^ 2 / (2 * G) * f) f))"

text \<open>
  \<^verbatim>\<open>
  def energy_equation(Q):
      return head_1(Q) - head_2(Q) - head_f(Q)
  \<close>
\<close>

definition energy_equation :: "'e root_scalar \<Rightarrow> real \<Rightarrow> 'e + real option" where
  "energy_equation root_scalar Q =
     (case head_f root_scalar Q of
        Inl e \<Rightarrow> Inl e
      | Inr hf \<Rightarrow> Inr (map_option (\<lambda>hf. head_1 Q - head_2 Q - hf) hf))"

subsection \<open>The call of \<open>friction_factor\<close> with its names resolved\<close>

text \<open>
  The example cell of the notebook binds \<^verbatim>\<open>re\<close>, \<^verbatim>\<open>rel_eps\<close>, \<^verbatim>\<open>f_complete\<close>,
  \<^verbatim>\<open>sol\<close> and \<^verbatim>\<open>f\<close> at module level, and the pipe cell rebinds \<^verbatim>\<open>rel_eps\<close>; the body
  of \<^verbatim>\<open>friction_factor\<close> uses the same five names. Here the names are kept: a frame maps
  names to values, a name is read from the function's frame first and from the module's
  frame otherwise, and an assignment in the body (which has no \<^verbatim>\<open>global\<close> declaration)
  binds in the function's frame. A value is a float or a result object. The run is
  \<open>None\<close> when a name is unbound or a value has the wrong type. The three function names
  of the body resolve to the notebook's two functions and the library import.
\<close>

datatype pyval = Flt "real option" | Res RootResults

type_synonym frame = "string \<Rightarrow> pyval option"

definition lookup :: "frame \<Rightarrow> frame \<Rightarrow> string \<Rightarrow> pyval option" where
  "lookup locals globals x = (case locals x of Some v \<Rightarrow> Some v | None \<Rightarrow> globals x)"

fun as_finite :: "pyval \<Rightarrow> real option" where
  "as_finite (Flt (Some x)) = Some x"
| "as_finite (Flt None) = None"
| "as_finite (Res sol) = None"

fun as_float :: "pyval \<Rightarrow> real option option" where
  "as_float (Flt x) = Some x"
| "as_float (Res sol) = None"

fun as_result :: "pyval \<Rightarrow> RootResults option" where
  "as_result (Res sol) = Some sol"
| "as_result (Flt x) = None"

definition friction_factor_run ::
  "'e root_scalar \<Rightarrow> frame \<Rightarrow> real \<Rightarrow> real \<Rightarrow> ('e + real option) option" where
  "friction_factor_run root_scalar globals reynolds_number rel_roughness =
     do {
       let l = [''reynolds_number'' \<mapsto> Flt (Some reynolds_number),
                ''rel_roughness'' \<mapsto> Flt (Some rel_roughness)];
       v \<leftarrow> lookup l globals ''reynolds_number'';
       let l = l(''re'' \<mapsto> v);
       v \<leftarrow> lookup l globals ''rel_roughness'';
       let l = l(''rel_eps'' \<mapsto> v);
       a \<leftarrow> lookup l globals ''rel_eps'' \<bind> as_finite;
       let l = l(''f_complete'' \<mapsto> Flt (colebrook_white_complete_turbulence a));
       re \<leftarrow> lookup l globals ''re'' \<bind> as_finite;
       rel_eps \<leftarrow> lookup l globals ''rel_eps'' \<bind> as_finite;
       x0 \<leftarrow> lookup l globals ''f_complete'' \<bind> as_float;
       (case root_scalar (\<lambda>f. colebrook_white f re rel_eps) x0 of
          Inl e \<Rightarrow> Some (Inl e)
        | Inr sol \<Rightarrow>
            do {
              let l = l(''sol'' \<mapsto> Res sol);
              s \<leftarrow> lookup l globals ''sol'' \<bind> as_result;
              let l = l(''f'' \<mapsto> Flt (root' s));
              f \<leftarrow> lookup l globals ''f'' \<bind> as_float;
              Some (Inr f)
            })
     }"

subsection \<open>The head functions in binary64\<close>

text \<open>
  Python floats and numpy's \<^verbatim>\<open>float64\<close> are IEEE binary64: every arithmetic operation
  returns the exact result rounded to the nearest number with a 53-bit significand, ties
  to the even significand. \<open>fl\<close> is that rounding. The exponent is not bounded here, so
  overflow to an infinity and subnormal numbers are outside the model; the values below
  are far from both. \<^verbatim>\<open>x ** 2\<close> is taken as the correctly rounded square.
\<close>

definition round_half_even :: "real \<Rightarrow> int" where
  "round_half_even m =
     (let n = \<lfloor>m\<rfloor>; d = m - of_int n in
      if d < 1 / 2 then n else if 1 / 2 < d then n + 1 else if even n then n else n + 1)"

definition fl :: "real \<Rightarrow> real" where
  "fl x = (if x = 0 then 0 else
     (let q = 2 powi (\<lfloor>log 2 \<bar>x\<bar>\<rfloor> - 52) in q * of_int (round_half_even (x / q))))"

definition fl_add :: "real \<Rightarrow> real \<Rightarrow> real" where
  "fl_add a b = fl (a + b)"

definition fl_sub :: "real \<Rightarrow> real \<Rightarrow> real" where
  "fl_sub a b = fl (a - b)"

definition fl_mul :: "real \<Rightarrow> real \<Rightarrow> real" where
  "fl_mul a b = fl (a * b)"

definition fl_div :: "real \<Rightarrow> real \<Rightarrow> real" where
  "fl_div a b = fl (a / b)"

definition fl_sq :: "real \<Rightarrow> real" where
  "fl_sq x = fl (x * x)"

text \<open>
  The literals \<^verbatim>\<open>9.81\<close> and \<^verbatim>\<open>1e-2\<close> are rounded when they are read; the integers
  \<^verbatim>\<open>50\<close>, \<^verbatim>\<open>1000\<close>, \<^verbatim>\<open>2\<close> and \<^verbatim>\<open>0\<close> are floats exactly. The head functions are
  those of the source with every operation rounded, in the order Python evaluates them.
  No divisor is zero.
\<close>

definition G_fl :: real where
  "G_fl = fl 9.81"

definition area_1_fl :: real where
  "area_1_fl = fl_sq (fl (1 / 100))"

definition area_2_fl :: real where
  "area_2_fl = fl_sq (fl (1 / 100))"

definition head_1_fl :: "real \<Rightarrow> real" where
  "head_1_fl Q =
     (let v = fl_sq (fl_div Q area_1_fl) in
      fl_add (fl_add (fl_div p_1 (fl_mul RHO G_fl)) (fl_div (fl_sq v) (fl_mul 2 G_fl))) z_1)"

definition head_2_fl :: "real \<Rightarrow> real" where
  "head_2_fl Q =
     (let v = fl_sq (fl_div Q area_2_fl) in
      fl_add (fl_add (fl_div p_2 (fl_mul RHO G_fl)) (fl_div (fl_sq v) (fl_mul 2 G_fl))) z_2)"

text \<open>Names for the two terms of \<open>head_1_fl 1\<close>: the pressure head and the velocity
  head at \<open>Q = 1\<close>.\<close>

definition pressure_head_1 :: real where
  "pressure_head_1 = fl_div p_1 (fl_mul RHO G_fl)"

definition velocity_head_1 :: real where
  "velocity_head_1 = fl_div (fl_sq (fl_sq (fl_div 1 area_1_fl))) (fl_mul 2 G_fl)"

section \<open>Auxiliary facts\<close>

subsection \<open>Bounds on logarithms\<close>

lemma exp_2_le_9: "exp (2::real) \<le> 9"
proof -
  have "exp (2::real) = exp 1 * exp 1"
    by (simp add: exp_add [symmetric])
  also have "\<dots> \<le> 3 * 3"
    by (intro mult_mono exp_le) simp_all
  finally show ?thesis by simp
qed

lemma ln_gt_2: "10 \<le> x \<Longrightarrow> 2 < ln (x::real)"
proof -
  assume x: "10 \<le> x"
  have "exp 2 < x" using exp_2_le_9 x by linarith
  moreover have "0 < x" using x by linarith
  ultimately show ?thesis by (metis exp_less_cancel_iff exp_ln)
qed

lemma ln_inverse_ratio: "0 < r \<Longrightarrow> ln (r / 3.7) = - ln (3.7 / (r::real))"
  by (simp add: ln_div)

subsection \<open>The operations inside their domains\<close>

lemma pow_half_sqrt: "0 \<le> x \<Longrightarrow> pow_half x = Some (sqrt x)"
  by (simp add: pow_half_def powr_half_sqrt)

lemma pow_half_inverse_square:
  assumes "0 < L"
  shows "pow_half (1 / (2 * L) ^ 2) = Some (1 / (2 * L))"
proof -
  have "sqrt (1 / (2 * L) ^ 2) = 1 / sqrt ((2 * L) ^ 2)"
    by (simp only: real_sqrt_divide real_sqrt_one)
  also have "sqrt ((2 * L) ^ 2) = \<bar>2 * L\<bar>"
    by (rule real_sqrt_abs)
  also have "\<bar>2 * L\<bar> = 2 * L"
    using assms by simp
  finally have "sqrt (1 / (2 * L) ^ 2) = 1 / (2 * L)" .
  moreover have "0 \<le> 1 / (2 * L) ^ 2"
    by simp
  ultimately show ?thesis
    by (simp only: pow_half_sqrt)
qed

text \<open>Inside its domain the residual is the formula of the source, and it has a value
  only there.\<close>

lemma colebrook_white_in_domain:
  assumes "0 < f" "re \<noteq> 0" "0 < r / 3.7 + 2.51 / (re * sqrt f)"
  shows "colebrook_white f re r
           = Some (1 / sqrt f + 2 * log 10 (r / 3.7 + 2.51 / (re * sqrt f)))"
proof -
  have ph: "pow_half f = Some (sqrt f)"
    using assms(1) by (simp add: pow_half_sqrt)
  have "sqrt f \<noteq> 0" "re * sqrt f \<noteq> 0"
    using assms(1,2) by simp_all
  moreover have "\<not> r / 3.7 + 2.51 / (re * sqrt f) \<le> 0"
    using assms(3) by simp
  ultimately show ?thesis
    unfolding colebrook_white_def Let_def ph
    by (simp add: np_divide_def np_log10_def)
qed

lemma colebrook_white_outside_domain:
  assumes "\<not> (0 < f \<and> re \<noteq> 0 \<and> 0 < r / 3.7 + 2.51 / (re * sqrt f))"
  shows "colebrook_white f re r = None"
proof (cases "f < 0")
  case True
  then show ?thesis
    by (simp add: colebrook_white_def pow_half_def)
next
  case False
  then have ph: "pow_half f = Some (sqrt f)"
    by (simp add: pow_half_sqrt)
  show ?thesis
    unfolding colebrook_white_def Let_def ph
    using assms False by (auto simp add: np_divide_def np_log10_def)
qed

subsection \<open>The complete-turbulence value and the residual at it\<close>

lemma colebrook_white_complete_turbulence_in_domain:
  assumes "0 < r" "r < 3.7"
  shows "colebrook_white_complete_turbulence r = Some ((- 2 * ln (r / 3.7)) powi (- 2))"
proof -
  have pos: "0 < r / 3.7" using assms by simp
  have "r / 3.7 < 1" using assms by simp
  then have "ln (r / 3.7) < 0" using pos by simp
  then show ?thesis
    using pos
    by (simp add: colebrook_white_complete_turbulence_def np_log_def)
qed

text \<open>Outside \<open>0 < rel_eps\<close>: \<^verbatim>\<open>nan\<close> below zero and the finite float \<^verbatim>\<open>0.0\<close> at
  zero.\<close>

lemma colebrook_white_complete_turbulence_negative:
  "r < 0 \<Longrightarrow> colebrook_white_complete_turbulence r = None"
  by (simp add: colebrook_white_complete_turbulence_def np_log_def)

lemma colebrook_white_complete_turbulence_zero:
  "colebrook_white_complete_turbulence 0 = Some 0"
  by (simp add: colebrook_white_complete_turbulence_def np_log_def)

lemma colebrook_white_complete_turbulence_value:
  assumes "0 < r" "r < 3.7"
  shows "colebrook_white_complete_turbulence r = Some (1 / (2 * ln (3.7 / r)) ^ 2)"
proof -
  have "(- 2 * ln (r / 3.7)) powi (- 2) = 1 / (2 * ln (3.7 / r)) ^ 2"
    unfolding ln_inverse_ratio [OF assms(1)] by (simp add: power_int_minus_divide)
  then show ?thesis
    using colebrook_white_complete_turbulence_in_domain [OF assms] by simp
qed

lemma colebrook_white_at_seed:
  assumes L: "0 < L" and re: "0 < re" and x: "0 < x"
  shows "colebrook_white (1 / (2 * L) ^ 2) re (3.7 * x)
           = Some (2 * L + 2 * log 10 (x + 2.51 / (re * (1 / (2 * L)))))"
proof -
  have c: "0 < 2.51 / (re * (1 / (2 * L)))" using L re by simp
  have nz: "re * (1 / (2 * L)) \<noteq> 0" using L re by simp
  have arg: "\<not> x + 2.51 / (re * (1 / (2 * L))) \<le> 0" using c x by linarith
  have ph: "pow_half (1 / (2 * L) ^ 2) = Some (1 / (2 * L))"
    using L by (rule pow_half_inverse_square)
  show ?thesis
    unfolding colebrook_white_def Let_def ph
    using L arg nz by (simp add: np_divide_def np_log10_def)
qed

lemma residual_at_seed_lower_bound:
  assumes L: "2 < L" and re: "0 < re" and x: "0 < x" and xL: "ln x = - L"
  shows "2 < 2 * L + 2 * log 10 (x + 2.51 / (re * (1 / (2 * L))))"
proof -
  have c: "0 < 2.51 / (re * (1 / (2 * L)))" using L re by simp
  have "log 10 x \<le> log 10 (x + 2.51 / (re * (1 / (2 * L))))"
    using c x by simp
  moreover have "log 10 x = - L / ln 10"
    by (simp add: log_def xL)
  moreover have "L / ln 10 < L / 2"
  proof (rule divide_strict_left_mono)
    show "2 < ln (10::real)" by (rule ln_gt_2) simp
    show "0 < L" using L by simp
    show "0 < ln (10::real) * 2" by simp
  qed
  ultimately show ?thesis using L by linarith
qed

text \<open>For every relative roughness in \<open>(0, 0.05]\<close> and every positive Reynolds number the
  residual at the complete-turbulence value exceeds 2.\<close>

lemma seed_residual_exceeds_2:
  assumes r: "0 < r" "r \<le> 0.05" and re: "0 < re"
  shows "\<exists>f v. colebrook_white_complete_turbulence r = Some f
            \<and> colebrook_white f re r = Some v \<and> 2 < v"
proof -
  define L where "L = ln (3.7 / r)"
  have "10 \<le> 3.7 / r" using r by (simp add: field_simps)
  then have L: "2 < L" unfolding L_def by (rule ln_gt_2)
  have seed: "colebrook_white_complete_turbulence r = Some (1 / (2 * L) ^ 2)"
    unfolding L_def using r by (intro colebrook_white_complete_turbulence_value) simp_all
  have x: "0 < r / 3.7" using r by simp
  have xL: "ln (r / 3.7) = - L" unfolding L_def using r(1) by (rule ln_inverse_ratio)
  have "colebrook_white (1 / (2 * L) ^ 2) re (3.7 * (r / 3.7))
           = Some (2 * L + 2 * log 10 (r / 3.7 + 2.51 / (re * (1 / (2 * L)))))"
    using L re x by (intro colebrook_white_at_seed) simp_all
  then have res: "colebrook_white (1 / (2 * L) ^ 2) re r
           = Some (2 * L + 2 * log 10 (r / 3.7 + 2.51 / (re * (1 / (2 * L)))))"
    by simp
  have "2 < 2 * L + 2 * log 10 (r / 3.7 + 2.51 / (re * (1 / (2 * L))))"
    using L re x xL by (rule residual_at_seed_lower_bound)
  with seed res show ?thesis by blast
qed

lemma natural_log_seed_below_log10_seed:
  assumes "0 < r" "r < 3.7"
  shows "(- 2 * ln (r / 3.7)) powi (- 2) < (- 2 * log 10 (r / 3.7)) powi (- 2)"
proof -
  define a where "a = ln (r / 3.7)"
  have "r / 3.7 < 1" "0 < r / 3.7" using assms by simp_all
  then have a: "a < 0" unfolding a_def by simp
  have l10: "2 < ln (10::real)" by (rule ln_gt_2) simp
  have lg: "log 10 (r / 3.7) = a / ln 10" by (simp add: log_def a_def)
  have "1 < (ln (10::real)) ^ 2"
    using l10 by (smt (verit) one_less_power pos2)
  then have "1 / (4 * a ^ 2) < (ln 10) ^ 2 / (4 * a ^ 2)"
    using a by (simp add: divide_strict_right_mono)
  moreover have "(- 2 * a) powi (- 2) = 1 / (4 * a ^ 2)"
    by (simp add: power_int_minus_divide power_mult_distrib)
  moreover have "(- 2 * (a / ln 10)) powi (- 2) = (ln 10) ^ 2 / (4 * a ^ 2)"
    using l10 by (simp add: power_int_minus_divide power_mult_distrib power_divide)
  ultimately show ?thesis
    unfolding lg a_def [symmetric] by simp
qed

subsection \<open>The head functions\<close>

lemma power_2_2: "((x::real) ^ 2) ^ 2 = x ^ 4"
  by (simp add: power_mult [symmetric])

lemma inverse_area_1: "1 / area_1 = 10000"
  by (simp add: area_1_def power2_eq_square)

lemma inverse_area_2: "1 / area_2 = 10000"
  by (simp add: area_2_def power2_eq_square)

lemma head_1_even: "head_1 (- Q) = head_1 Q"
  by (simp add: head_1_def)

lemma head_2_even: "head_2 (- Q) = head_2 Q"
  by (simp add: head_2_def)

lemma head_f_even: "head_f rs (- Q) = head_f rs Q"
  by (simp add: head_f_def)

text \<open>The outcome of \<open>friction_factor\<close> depends on the root finder through one call
  only.\<close>

lemma friction_factor_one_call:
  assumes "rs (\<lambda>f. colebrook_white f re r) (colebrook_white_complete_turbulence r)
         = rs' (\<lambda>f. colebrook_white f re r) (colebrook_white_complete_turbulence r)"
  shows "friction_factor rs re r = friction_factor rs' re r"
  using assms by (simp add: friction_factor_def)

subsection \<open>The residual at the seed for a negative Reynolds number\<close>

lemma ln_less_7: "0 < x \<Longrightarrow> x \<le> 100 \<Longrightarrow> ln (x::real) < 7"
proof -
  assume x: "0 < x" "x \<le> 100"
  have "(2::real) \<le> exp 1"
    using exp_ge_add_one_self [of "1::real"] by simp
  then have "(2::real) ^ 7 \<le> exp 1 ^ 7"
    by (intro power_mono) simp_all
  also have "exp (1::real) ^ 7 = exp 7"
    using exp_of_nat_mult [of 7 "1::real"] by simp
  finally have "x < exp 7" using x by simp
  then show ?thesis using x(1) by (metis exp_less_cancel_iff exp_ln)
qed

lemma residual_at_seed_negative_reynolds:
  "colebrook_white_complete_turbulence (5 / 100) = Some (1 / (2 * ln 74) ^ 2)
   \<and> colebrook_white (1 / (2 * ln 74) ^ 2) (- 5000) (5 / 100) \<noteq> None"
proof
  have "colebrook_white_complete_turbulence (5 / 100) = Some (1 / (2 * ln (3.7 / (5 / 100))) ^ 2)"
    by (rule colebrook_white_complete_turbulence_value) simp_all
  then show "colebrook_white_complete_turbulence (5 / 100) = Some (1 / (2 * ln 74) ^ 2)"
    by simp
  define L :: real where "L = ln 74"
  have L: "2 < L" "L < 7"
    unfolding L_def by (simp_all add: ln_gt_2 ln_less_7)
  have "pow_half (1 / (2 * L) ^ 2) = Some (sqrt (1 / (2 * L) ^ 2))"
    by (rule pow_half_sqrt) simp
  moreover have "pow_half (1 / (2 * L) ^ 2) = Some (1 / (2 * L))"
    using L by (intro pow_half_inverse_square) simp
  ultimately have s: "sqrt (1 / (2 * L) ^ 2) = 1 / (2 * L)"
    by (metis option.inject)
  have "(251 / 100) * (2 * L) < 5000 * ((5 / 100) / 3.7)"
    using L by simp
  then have "0 < (5 / 100) / 3.7 + 2.51 / (- 5000 * (1 / (2 * L)))"
    using L by (simp add: field_simps)
  then have arg: "0 < (5 / 100) / 3.7 + 2.51 / (- 5000 * sqrt (1 / (2 * L) ^ 2))"
    by (simp only: s)
  have f: "0 < 1 / (2 * L) ^ 2"
    using L by simp
  have re: "(- 5000::real) \<noteq> 0"
    by simp
  have "colebrook_white (1 / (2 * L) ^ 2) (- 5000) (5 / 100)
      = Some (1 / sqrt (1 / (2 * L) ^ 2)
              + 2 * log 10 ((5 / 100) / 3.7 + 2.51 / (- 5000 * sqrt (1 / (2 * L) ^ 2))))"
    using f re arg by (rule colebrook_white_in_domain)
  then show "colebrook_white (1 / (2 * ln 74) ^ 2) (- 5000) (5 / 100) \<noteq> None"
    unfolding L_def by simp
qed

lemma colebrook_white_zero_reynolds: "colebrook_white f 0 r = None"
  by (rule colebrook_white_outside_domain) simp

subsection \<open>Rounding to binary64\<close>

lemma floor_log2_binade:
  assumes "2 powi e \<le> x" "x < 2 powi (e + 1)"
  shows "\<lfloor>log 2 x\<rfloor> = e"
proof -
  have pos: "0 < x" using assms(1) by (smt (verit) zero_less_power_int)
  have "2 powr (of_int e) \<le> x" using assms(1) by (simp add: powr_real_of_int')
  then have l: "of_int e \<le> log 2 x" using pos by (simp add: le_log_iff)
  have "(2::real) powr (of_int (e + 1)) = 2 powi (e + 1)"
    by (rule powr_real_of_int') simp_all
  then have "x < 2 powr (of_int (e + 1))"
    using assms(2) by (simp only:)
  then have u: "log 2 x < of_int (e + 1)"
    using pos by (subst log_less_iff) simp_all
  show ?thesis using l u by (simp add: floor_eq_iff)
qed

lemma round_half_even_near:
  assumes "0 \<le> d" "d < 1 / 2"
  shows "round_half_even (of_int n + d) = n"
proof -
  have "\<lfloor>of_int n + d\<rfloor> = n" using assms by (simp add: floor_eq_iff)
  then show ?thesis using assms by (simp add: round_half_even_def)
qed

lemma round_half_even_bounds:
  "m - 1 / 2 \<le> of_int (round_half_even m) \<and> of_int (round_half_even m) \<le> m + 1 / 2"
  unfolding round_half_even_def Let_def
  by (auto simp: not_less) linarith+

lemma fl_binade:
  assumes "2 powi e \<le> x" "x < 2 powi (e + 1)"
  shows "fl x = 2 powi (e - 52) * of_int (round_half_even (x / 2 powi (e - 52)))"
proof -
  have pos: "0 < x" using assms(1) by (smt (verit) zero_less_power_int)
  then have "\<lfloor>log 2 \<bar>x\<bar>\<rfloor> = e" using floor_log2_binade [OF assms] by simp
  then show ?thesis using pos by (simp add: fl_def Let_def)
qed

lemma fl_absorb:
  assumes "2 powi e \<le> X" "X + a < 2 powi (e + 1)"
    and "X = 2 powi (e - 52) * of_int n" "0 \<le> a" "a < 2 powi (e - 53)"
  shows "fl (X + a) = X"
proof -
  define q :: real where "q = 2 powi (e - 52)"
  have q: "0 < q" unfolding q_def by simp
  have half: "2 powi (e - 53) = q / 2"
    unfolding q_def by (simp add: power_int_diff)
  have "(X + a) / q = of_int n + a / q"
    using q assms(3) unfolding q_def by (simp add: field_simps)
  moreover have "0 \<le> a / q" "a / q < 1 / 2"
    using q assms(4,5) half by (simp_all add: field_simps)
  ultimately have "round_half_even ((X + a) / q) = n"
    using round_half_even_near by simp
  moreover have "fl (X + a) = q * of_int (round_half_even ((X + a) / q))"
    unfolding q_def using assms(1,2,4) by (intro fl_binade) linarith+
  ultimately show ?thesis using assms(3) unfolding q_def by simp
qed

lemma fl_bounds:
  assumes "2 powi e \<le> l" "l \<le> x" "x \<le> u" "u < 2 powi (e + 1)"
  shows "l - 2 powi (e - 53) \<le> fl x \<and> fl x \<le> u + 2 powi (e - 53)"
proof -
  define q :: real where "q = 2 powi (e - 52)"
  have q: "0 < q" unfolding q_def by simp
  have half: "2 powi (e - 53) = q / 2"
    unfolding q_def by (simp add: power_int_diff)
  have f: "fl x = q * of_int (round_half_even (x / q))"
    unfolding q_def using assms by (intro fl_binade) linarith+
  have b: "x / q - 1 / 2 \<le> of_int (round_half_even (x / q))"
      "of_int (round_half_even (x / q)) \<le> x / q + 1 / 2"
    using round_half_even_bounds [of "x / q"] by simp_all
  have "q * (x / q - 1 / 2) \<le> fl x" "fl x \<le> q * (x / q + 1 / 2)"
    unfolding f using b q by (simp_all only: mult_le_cancel_left_pos)
  moreover have "q * (x / q - 1 / 2) = x - q / 2" "q * (x / q + 1 / 2) = x + q / 2"
    using q by (simp_all add: algebra_simps)
  ultimately have "x - q / 2 \<le> fl x" "fl x \<le> x + q / 2"
    by simp_all
  then show ?thesis using assms half by linarith
qed

lemma fl_grid:
  assumes "2 powi e \<le> x" "x < 2 powi (e + 1)"
  shows "\<exists>n. fl x = 2 powi (e - 52) * of_int n"
  using fl_binade [OF assms] by blast

lemma fl_0: "fl 0 = 0" by (simp add: fl_def)

lemma fl_between:
  assumes "2 powi e \<le> l" "l \<le> x" "x \<le> u" "u < 2 powi (e + 1)"
    and "l' \<le> l - 2 powi (e - 53)" "u + 2 powi (e - 53) \<le> u'"
  shows "l' \<le> fl x \<and> fl x \<le> u'"
  using fl_bounds [OF assms(1-4)] assms(5,6) by linarith

lemma literal_hundredth_bounds: "99999 / 10000000 \<le> fl (1 / 100) \<and> fl (1 / 100) \<le> 100001 / 10000000"
  by (rule fl_between [where e = "- 7" and l = "1 / 100" and u = "1 / 100"])
     (simp_all add: power_int_minus)

lemma sq_between:
  assumes "0 \<le> l" "l \<le> x" "x \<le> (u::real)" "l' \<le> l * l" "u * u \<le> u'"
  shows "l' \<le> x * x \<and> x * x \<le> u'"
proof -
  have "l * l \<le> x * x" "x * x \<le> u * u"
    using assms(1-3) by (auto intro!: mult_mono)
  then show ?thesis using assms(4,5) by linarith
qed

lemma frac_between:
  assumes "0 \<le> nl" "nl \<le> n" "n \<le> (nu::real)" "0 < dl" "dl \<le> d" "d \<le> du"
    and "l' \<le> nl / du" "nu / dl \<le> u'"
  shows "l' \<le> n / d \<and> n / d \<le> u'"
proof -
  have "nl / du \<le> n / d"
    using assms(1-6) by (intro frac_le) linarith+
  moreover have "n / d \<le> nu / dl"
    using assms(1-6) by (intro frac_le) linarith+
  ultimately show ?thesis using assms(7,8) by linarith
qed

lemma area_1_fl_bounds:
  "99997 / 1000000000 \<le> area_1_fl \<and> area_1_fl \<le> 100004 / 1000000000"
proof -
  define c where "c = fl (1 / 100)"
  have c: "99999 / 10000000 \<le> c" "c \<le> 100001 / 10000000"
    unfolding c_def using literal_hundredth_bounds by simp_all
  have "99998 / 1000000000 \<le> c * c \<and> c * c \<le> 100003 / 1000000000"
    by (rule sq_between [OF _ c]) simp_all
  then have "99997 / 1000000000 \<le> fl (c * c) \<and> fl (c * c) \<le> 100004 / 1000000000"
    by (intro fl_between [where e = "- 14" and l = "99998 / 1000000000" and u = "100003 / 1000000000"])
       (simp_all add: power_int_minus)
  then show ?thesis by (simp add: area_1_fl_def fl_sq_def c_def)
qed

lemma inverse_area_fl_bounds:
  "99995 / 10 \<le> fl_div 1 area_1_fl \<and> fl_div 1 area_1_fl \<le> 100005 / 10"
proof -
  have a: "99997 / 1000000000 \<le> area_1_fl" "area_1_fl \<le> 100004 / 1000000000"
    using area_1_fl_bounds by simp_all
  have "99996 / 10 \<le> 1 / area_1_fl \<and> 1 / area_1_fl \<le> 100004 / 10"
    by (rule frac_between [OF _ order_refl order_refl _ a]) simp_all
  then have "99995 / 10 \<le> fl (1 / area_1_fl) \<and> fl (1 / area_1_fl) \<le> 100005 / 10"
    by (intro fl_between [where e = 13 and l = "99996 / 10" and u = "100004 / 10"]) simp_all
  then show ?thesis by (simp add: fl_div_def)
qed

lemma squared_velocity_fl_bounds:
  "99989999 \<le> fl_sq (fl_div 1 area_1_fl) \<and> fl_sq (fl_div 1 area_1_fl) \<le> 100010002"
proof -
  define w where "w = fl_div 1 area_1_fl"
  have w: "99995 / 10 \<le> w" "w \<le> 100005 / 10"
    unfolding w_def using inverse_area_fl_bounds by simp_all
  have "99990000 \<le> w * w \<and> w * w \<le> 100010001"
    by (rule sq_between [OF _ w]) simp_all
  then have "99989999 \<le> fl (w * w) \<and> fl (w * w) \<le> 100010002"
    by (intro fl_between [where e = 26 and l = 99990000 and u = 100010001])
       (simp_all add: power_int_minus)
  then show ?thesis by (simp add: fl_sq_def w_def)
qed

lemma fourth_power_fl_bounds:
  "9997998000000000 \<le> fl_sq (fl_sq (fl_div 1 area_1_fl))
   \<and> fl_sq (fl_sq (fl_div 1 area_1_fl)) \<le> 10002002000000000"
proof -
  define v where "v = fl_sq (fl_div 1 area_1_fl)"
  have v: "99989999 \<le> v" "v \<le> 100010002"
    unfolding v_def using squared_velocity_fl_bounds by simp_all
  have "9997999000000000 \<le> v * v \<and> v * v \<le> 10002001000000000"
    by (rule sq_between [OF _ v]) simp_all
  then have "9997998000000000 \<le> fl (v * v) \<and> fl (v * v) \<le> 10002002000000000"
    by (intro fl_between [where e = 53 and l = 9997999000000000 and u = 10002001000000000])
       (simp_all add: power_int_minus)
  then show ?thesis by (simp add: fl_sq_def v_def)
qed

lemma G_fl_bounds: "98099 / 10000 \<le> G_fl \<and> G_fl \<le> 98101 / 10000"
  unfolding G_fl_def
  by (rule fl_between [where e = 3 and l = "9.81" and u = "9.81"]) (simp_all add: power_int_minus)

lemma two_G_fl_bounds: "196197 / 10000 \<le> fl_mul 2 G_fl \<and> fl_mul 2 G_fl \<le> 196203 / 10000"
proof -
  have g: "98099 / 10000 \<le> G_fl" "G_fl \<le> 98101 / 10000"
    using G_fl_bounds by simp_all
  then have "196198 / 10000 \<le> 2 * G_fl" "2 * G_fl \<le> 196202 / 10000"
    by simp_all
  then have "196197 / 10000 \<le> fl (2 * G_fl) \<and> fl (2 * G_fl) \<le> 196203 / 10000"
    by (intro fl_between [where e = 4 and l = "196198 / 10000" and u = "196202 / 10000"])
       (simp_all add: power_int_minus)
  then show ?thesis by (simp add: fl_mul_def)
qed

lemma RHO_G_fl_bounds: "98098 / 10 \<le> fl_mul RHO G_fl \<and> fl_mul RHO G_fl \<le> 98102 / 10"
proof -
  have g: "98099 / 10000 \<le> G_fl" "G_fl \<le> 98101 / 10000"
    using G_fl_bounds by simp_all
  then have "98099 / 10 \<le> 1000 * G_fl" "1000 * G_fl \<le> 98101 / 10"
    by simp_all
  then have "98098 / 10 \<le> fl (1000 * G_fl) \<and> fl (1000 * G_fl) \<le> 98102 / 10"
    by (intro fl_between [where e = 13 and l = "98099 / 10" and u = "98101 / 10"])
       (simp_all add: power_int_minus)
  then show ?thesis by (simp add: fl_mul_def RHO_def)
qed

lemma velocity_head_1_props:
  "(\<exists>n. velocity_head_1 = 2 powi (48 - 52) * of_int n)
   \<and> 2 powi 48 \<le> velocity_head_1 \<and> velocity_head_1 \<le> 511000000000000"
proof -
  define n2 where "n2 = fl_sq (fl_sq (fl_div 1 area_1_fl))"
  define g2 where "g2 = fl_mul 2 G_fl"
  have n2: "9997998000000000 \<le> n2" "n2 \<le> 10002002000000000"
    unfolding n2_def using fourth_power_fl_bounds by simp_all
  have g2: "196197 / 10000 \<le> g2" "g2 \<le> 196203 / 10000"
    unfolding g2_def using two_G_fl_bounds by simp_all
  have y: "509000000000000 \<le> n2 / g2 \<and> n2 / g2 \<le> 510000000000000"
    by (rule frac_between [OF _ n2 _ g2]) simp_all
  have lo: "(2::real) powi 48 \<le> n2 / g2" and hi: "n2 / g2 < 2 powi (48 + 1)"
    using y by simp_all
  have grid: "\<exists>n. fl (n2 / g2) = 2 powi (48 - 52) * of_int n"
    using lo hi by (rule fl_grid)
  have "509000000000000 - 1 \<le> fl (n2 / g2) \<and> fl (n2 / g2) \<le> 510000000000000 + 1"
    using y
    by (intro fl_between [where e = 48 and l = 509000000000000 and u = 510000000000000])
       (simp_all add: power_int_minus)
  then have "2 powi 48 \<le> fl (n2 / g2)" "fl (n2 / g2) \<le> 511000000000000"
    by simp_all
  with grid show ?thesis
    by (simp add: velocity_head_1_def fl_div_def n2_def g2_def)
qed

lemma pressure_head_1_props:
  "(\<exists>n. pressure_head_1 = 2 powi (- 8 - 52) * of_int n)
   \<and> 5 / 1000 \<le> pressure_head_1 \<and> pressure_head_1 \<le> 52 / 10000"
proof -
  define rg where "rg = fl_mul RHO G_fl"
  have rg: "98098 / 10 \<le> rg" "rg \<le> 98102 / 10"
    unfolding rg_def using RHO_G_fl_bounds by simp_all
  have t: "509 / 100000 \<le> 50 / rg \<and> 50 / rg \<le> 51 / 10000"
    by (rule frac_between [OF _ order_refl order_refl _ rg]) simp_all
  have lo: "(2::real) powi (- 8) \<le> 50 / rg" and hi: "50 / rg < 2 powi (- 8 + 1)"
    using t by (simp_all add: power_int_minus)
  have grid: "\<exists>n. fl (50 / rg) = 2 powi (- 8 - 52) * of_int n"
    using lo hi by (rule fl_grid)
  have "5 / 1000 \<le> fl (50 / rg) \<and> fl (50 / rg) \<le> 52 / 10000"
    using t
    by (intro fl_between [where e = "- 8" and l = "509 / 100000" and u = "51 / 10000"])
       (simp_all add: power_int_minus)
  with grid show ?thesis
    by (simp add: pressure_head_1_def fl_div_def rg_def p_1_def)
qed

lemma fl_velocity_head_1: "fl velocity_head_1 = velocity_head_1"
proof -
  obtain n where n: "velocity_head_1 = 2 powi (48 - 52) * of_int n"
    and b: "2 powi 48 \<le> velocity_head_1" "velocity_head_1 \<le> 511000000000000"
    using velocity_head_1_props by blast
  have "fl (velocity_head_1 + 0) = velocity_head_1"
    using b by (intro fl_absorb [OF _ _ n]) simp_all
  then show ?thesis by simp
qed

lemma pressure_head_absorbed: "fl (pressure_head_1 + velocity_head_1) = velocity_head_1"
proof -
  obtain n where n: "velocity_head_1 = 2 powi (48 - 52) * of_int n"
    and b: "2 powi 48 \<le> velocity_head_1" "velocity_head_1 \<le> 511000000000000"
    using velocity_head_1_props by blast
  have p: "5 / 1000 \<le> pressure_head_1" "pressure_head_1 \<le> 52 / 10000"
    using pressure_head_1_props by simp_all
  have "fl (velocity_head_1 + pressure_head_1) = velocity_head_1"
    using b p by (intro fl_absorb [OF _ _ n]) (simp_all add: power_int_minus)
  then show ?thesis by (simp add: add.commute)
qed

lemma fl_pressure_head_1: "fl pressure_head_1 = pressure_head_1"
proof -
  obtain n where n: "pressure_head_1 = 2 powi (- 8 - 52) * of_int n"
    and b: "5 / 1000 \<le> pressure_head_1" "pressure_head_1 \<le> 52 / 10000"
    using pressure_head_1_props by blast
  have "fl (pressure_head_1 + 0) = pressure_head_1"
    using b by (intro fl_absorb [OF _ _ n]) (simp_all add: power_int_minus)
  then show ?thesis by simp
qed

lemma head_1_fl_1: "head_1_fl 1 = velocity_head_1"
  by (simp add: head_1_fl_def Let_def fl_add_def z_1_def pressure_head_1_def [symmetric]
      velocity_head_1_def [symmetric] pressure_head_absorbed fl_velocity_head_1)

lemma head_2_fl_1: "head_2_fl 1 = velocity_head_1"
  by (simp add: head_2_fl_def Let_def fl_add_def z_2_def p_2_def fl_div_def [of 0] fl_0
      area_2_fl_def area_1_fl_def [symmetric]
      velocity_head_1_def [symmetric] fl_velocity_head_1)

lemma head_1_fl_0: "head_1_fl 0 = pressure_head_1"
  by (simp add: head_1_fl_def Let_def fl_add_def z_1_def fl_div_def [of 0] fl_sq_def fl_0
      pressure_head_1_def [symmetric] fl_pressure_head_1)

lemma head_2_fl_0: "head_2_fl 0 = 0"
  by (simp add: head_2_fl_def Let_def fl_add_def z_2_def p_2_def fl_div_def [of 0] fl_sq_def fl_0)

section \<open>The claims\<close>

subsection \<open>Head at a point\<close>

text \<open>
  C1. Claim: for every boundary condition (pressure \<open>p\<close>, area \<open>A\<close>, elevation \<open>z\<close>) and
  every flow rate \<open>Q\<close> the head at the point is \<open>p/(rho*g) + (Q/A)^2/(2*g) + z\<close>, the
  velocity-head term being the square of \<open>Q/A\<close>, not the fourth power.
  The code binds \<^verbatim>\<open>v = (Q/area)**2\<close> and then uses \<^verbatim>\<open>v**2\<close>. At \<open>Q = 1\<close>, for the
  inlet and for the outlet, the head computed is the one with the fourth power of \<open>Q/A\<close>
  and differs from the claimed one.
\<close>

theorem head_velocity_term_fourth_power:
  "head_1 1 = p_1 / (RHO * G) + (1 / area_1) ^ 4 / (2 * G) + z_1
   \<and> head_1 1 \<noteq> p_1 / (RHO * G) + (1 / area_1) ^ 2 / (2 * G) + z_1
   \<and> head_2 1 = p_2 / (RHO * G) + (1 / area_2) ^ 4 / (2 * G) + z_2
   \<and> head_2 1 \<noteq> p_2 / (RHO * G) + (1 / area_2) ^ 2 / (2 * G) + z_2"
  unfolding head_1_def head_2_def Let_def power_2_2 inverse_area_1 inverse_area_2
  by (simp add: G_def)

text \<open>
  C10. Claim: for every flow rate \<open>Q\<close>, \<open>head_1 Q - head_2 Q = (p_1 - p_2)/(rho*g)\<close>, a
  constant independent of \<open>Q\<close>, because the velocity-head terms cancel exactly.
  In binary64 they do not cancel for every \<open>Q\<close>. Amended: in exact real arithmetic
  \<open>head_1 Q - head_2 Q = (p_1 - p_2)/(rho*g)\<close> for every \<open>Q\<close>, the inlet and outlet areas
  and elevations being equal; in the program's binary64 arithmetic the difference is the
  rounded constant \<^verbatim>\<open>p_1/(RHO*G)\<close> at \<open>Q = 0\<close>.
\<close>

theorem head_difference_exact_and_at_rest:
  "head_1 Q - head_2 Q = (p_1 - p_2) / (RHO * G)
   \<and> area_1 = area_2 \<and> z_1 = z_2 \<and> area_1_fl = area_2_fl
   \<and> fl_sub (head_1_fl 0) (head_2_fl 0) = fl_div p_1 (fl_mul RHO G_fl)"
proof (intro conjI)
  show "head_1 Q - head_2 Q = (p_1 - p_2) / (RHO * G)"
    by (simp add: head_1_def head_2_def Let_def area_1_def area_2_def z_1_def z_2_def
        diff_divide_distrib)
  show "fl_sub (head_1_fl 0) (head_2_fl 0) = fl_div p_1 (fl_mul RHO G_fl)"
    by (simp add: head_1_fl_0 head_2_fl_0 fl_sub_def fl_pressure_head_1)
       (simp add: pressure_head_1_def)
qed (simp_all add: area_1_def area_2_def z_1_def z_2_def area_1_fl_def area_2_fl_def)

text \<open>The claim fails at \<open>Q = 1\<close>, the starting point the notebook gives the outer root
  finder: the velocity head is about \<open>5.1e14\<close>, where neighbouring floats are \<open>2^-4\<close>
  apart, so adding the pressure head of about \<open>0.0051\<close> changes nothing and the
  difference of the two heads is \<open>0.0\<close>; at \<open>Q = 0\<close> it is positive.\<close>

theorem head_difference_absorbed_at_1:
  "fl_sub (head_1_fl 1) (head_2_fl 1) = 0
   \<and> 0 < fl_sub (head_1_fl 0) (head_2_fl 0)
   \<and> (p_1 - p_2) / (RHO * G) \<noteq> 0"
proof (intro conjI)
  show "fl_sub (head_1_fl 1) (head_2_fl 1) = 0"
    by (simp add: head_1_fl_1 head_2_fl_1 fl_sub_def fl_0)
  show "0 < fl_sub (head_1_fl 0) (head_2_fl 0)"
    using pressure_head_1_props
    by (simp add: head_1_fl_0 head_2_fl_0 fl_sub_def fl_pressure_head_1)
  show "(p_1 - p_2) / (RHO * G) \<noteq> 0"
    by (simp add: p_1_def p_2_def RHO_def G_def)
qed

subsection \<open>The complete-turbulence value\<close>

text \<open>
  C3. Claim: for every \<open>rel_eps\<close> with \<open>0 < rel_eps/3.7 < 1\<close> the closed-form seed is
  \<open>(-2*log10(rel_eps/3.7))^-2\<close>, with the base-10 logarithm.
  The code calls \<^verbatim>\<open>np.log\<close>. At \<open>rel_eps = 0.05\<close> it returns the value formed with the
  natural logarithm, which is strictly below the claimed one.
\<close>

theorem complete_turbulence_uses_natural_log:
  "colebrook_white_complete_turbulence 0.05 = Some ((- 2 * ln (0.05 / 3.7)) powi (- 2))
   \<and> (- 2 * ln (0.05 / 3.7)) powi (- 2) < (- 2 * log 10 (0.05 / 3.7)) powi (- 2)"
proof
  show "colebrook_white_complete_turbulence 0.05 = Some ((- 2 * ln (0.05 / 3.7)) powi (- 2))"
    by (rule colebrook_white_complete_turbulence_in_domain) simp_all
  show "(- 2 * ln (0.05 / 3.7)) powi (- 2) < (- 2 * log 10 (0.05 / 3.7)) powi (- 2)"
    by (rule natural_log_seed_below_log10_seed) simp_all
qed

text \<open>
  C2. Claim: for all \<open>rel_eps\<close> in \<open>(0, 0.05]\<close>, the complete-turbulence value put for
  \<open>f\<close> into the residual with a very large finite Reynolds number (1e12) gives a residual
  within 1e-6 of zero.
  At \<open>rel_eps = 0.05\<close> and \<open>Re = 1e12\<close> the seed and the residual at it are both inside
  their domains, and the residual exceeds 2.
\<close>

theorem seed_residual_at_large_reynolds:
  "\<exists>f v. colebrook_white_complete_turbulence 0.05 = Some f
      \<and> colebrook_white f (10 ^ 12) 0.05 = Some v \<and> 2 < v"
  by (rule seed_residual_exceeds_2) simp_all

subsection \<open>The friction-factor solve\<close>

text \<open>
  C5. Claim: for every \<open>Re \<le> 0\<close> or \<open>rel_eps \<le> 0\<close> passed to the friction-factor solve,
  the call raises InvalidInput and never returns a numerical result.
  The code validates nothing. Amended: for every \<open>Re \<le> 0\<close> or \<open>rel_eps \<le> 0\<close> the call
  hands the residual and the complete-turbulence value to the root finder as for any
  other input; it raises exactly when the root finder raises, and otherwise returns the
  root the finder reports.
\<close>

theorem friction_factor_no_validation:
  assumes "re \<le> 0 \<or> r \<le> 0"
  shows "friction_factor rs re r
           = (case rs (\<lambda>f. colebrook_white f re r) (colebrook_white_complete_turbulence r) of
                Inl e \<Rightarrow> Inl e
              | Inr sol \<Rightarrow> Inr (root' sol))"
  by (simp add: friction_factor_def)

text \<open>At \<open>Re = 0\<close>, \<open>rel_eps = 0\<close>, for every root finder: the finder is started at the
  float \<open>0.0\<close> on a residual that is finite nowhere, and its outcome is the outcome of
  the call.\<close>

theorem friction_factor_no_validation_witness:
  "((0::real) \<le> 0 \<or> (0::real) \<le> 0)
   \<and> (\<forall>rs :: 'e root_scalar. friction_factor rs 0 0
          = (case rs (\<lambda>f. None) (Some 0) of Inl e \<Rightarrow> Inl e | Inr sol \<Rightarrow> Inr (root' sol)))"
proof -
  have "friction_factor rs 0 0
          = (case rs (\<lambda>f. None) (Some 0) of Inl e \<Rightarrow> Inl e | Inr sol \<Rightarrow> Inr (root' sol))"
    for rs :: "'e root_scalar"
    using friction_factor_no_validation [of 0 0 rs]
    by (simp add: colebrook_white_zero_reynolds colebrook_white_complete_turbulence_zero)
  then show ?thesis by simp
qed

text \<open>The claim fails at \<open>Re = -5000\<close>, \<open>rel_eps = 0.05\<close>: the seed is a finite positive
  float, the residual is finite at the seed, the solve is attempted, and it is not the
  case that the call raises whatever the root finder does.\<close>

theorem friction_factor_negative_reynolds_not_rejected:
  "colebrook_white_complete_turbulence (5 / 100) = Some (1 / (2 * ln 74) ^ 2)
   \<and> colebrook_white (1 / (2 * ln 74) ^ 2) (- 5000) (5 / 100) \<noteq> None
   \<and> \<not> (\<forall>rs :: unit root_scalar. \<exists>e. friction_factor rs (- 5000) (5 / 100) = Inl e)"
proof (intro conjI)
  show "colebrook_white_complete_turbulence (5 / 100) = Some (1 / (2 * ln 74) ^ 2)"
    using residual_at_seed_negative_reynolds by (rule conjunct1)
  show "colebrook_white (1 / (2 * ln 74) ^ 2) (- 5000) (5 / 100) \<noteq> None"
    using residual_at_seed_negative_reynolds by (rule conjunct2)
  show "\<not> (\<forall>rs :: unit root_scalar. \<exists>e. friction_factor rs (- 5000) (5 / 100) = Inl e)"
  proof
    assume "\<forall>rs :: unit root_scalar. \<exists>e. friction_factor rs (- 5000) (5 / 100) = Inl e"
    then have "\<exists>e. friction_factor
        (\<lambda>g x0. Inr \<lparr>root' = x0, iterations = 0, function_calls = 0,
                      converged = False, flag = []\<rparr> :: unit + RootResults)
        (- 5000) (5 / 100) = Inl e"
      by (rule spec)
    then show False
      by (simp add: friction_factor_def)
  qed
qed

text \<open>
  C8. For every pair of identical inputs \<open>(Re, rel_eps)\<close>, two calls of the
  friction-factor solve return identical results: the solve has no hidden state.
  With the names of the body resolved against the function's frame and the module's
  frame, every name the body reads is a parameter or a name the body has bound itself.
  So whatever the module binds (its \<^verbatim>\<open>re\<close>, \<^verbatim>\<open>rel_eps\<close>, \<^verbatim>\<open>f_complete\<close>, \<^verbatim>\<open>sol\<close>
  and \<^verbatim>\<open>f\<close> included), the run succeeds with the outcome \<open>friction_factor\<close> gives, and
  two runs on the same inputs in two module states have the same outcome. The library
  root finder is a function of the residual and the starting point.
\<close>

theorem friction_factor_no_hidden_state:
  "friction_factor_run rs g re r = Some (friction_factor rs re r)
   \<and> friction_factor_run rs g' re r = friction_factor_run rs g re r"
proof -
  have "friction_factor_run rs h re r = Some (friction_factor rs re r)" for h
    by (simp add: friction_factor_run_def lookup_def friction_factor_def split: sum.split)
  then show ?thesis by simp
qed

subsection \<open>The residuals outside their domains\<close>




subsection \<open>Head loss and the energy residual\<close>

text \<open>
  C4. Claim: for every flow rate \<open>Q\<close> the head loss takes the velocity \<open>v = Q/pipe_area\<close>,
  the Reynolds number \<open>Re = rho*v*d/mu\<close>, the friction factor \<open>f\<close> solved at
  \<open>(Re, rel_eps)\<close>, and returns \<open>(length/d) * v^2/(2*g) * f\<close>.
  The code binds \<^verbatim>\<open>v = (Q/area_pipe)**2\<close>: the friction factor is solved at
  \<open>rho*(Q/A)^2*d/mu\<close> and multiplied by \<open>(length/d) * (Q/A)^4/(2*g)\<close>. At \<open>Q = 1\<close>
  both differ from the claimed quantities.
\<close>

theorem head_f_squares_velocity_twice:
  "head_f rs Q =
     (case friction_factor rs (RHO * (Q / area_pipe) ^ 2 * d_pipe / MU) rel_eps of
        Inl e \<Rightarrow> Inl e
      | Inr f \<Rightarrow>
          Inr (map_option (\<lambda>f. length_pipe / d_pipe * (Q / area_pipe) ^ 4 / (2 * G) * f) f))
   \<and> RHO * (1 / area_pipe) ^ 2 * d_pipe / MU \<noteq> RHO * (1 / area_pipe) * d_pipe / MU
   \<and> length_pipe / d_pipe * (1 / area_pipe) ^ 4 / (2 * G)
       \<noteq> length_pipe / d_pipe * (1 / area_pipe) ^ 2 / (2 * G)"
proof (intro conjI)
  show "head_f rs Q =
     (case friction_factor rs (RHO * (Q / area_pipe) ^ 2 * d_pipe / MU) rel_eps of
        Inl e \<Rightarrow> Inl e
      | Inr f \<Rightarrow>
          Inr (map_option (\<lambda>f. length_pipe / d_pipe * (Q / area_pipe) ^ 4 / (2 * G) * f) f))"
    unfolding head_f_def Let_def power_2_2 by (rule refl)
  have "pi < 4" by (rule pi_less_4)
  moreover have "0 < pi" by (rule pi_gt_zero)
  ultimately have big: "1 < 400 / pi"
    by simp
  have inv: "1 / area_pipe = 400 / pi"
    by (simp add: area_pipe_def d_pipe_def power2_eq_square)
  have "(400 / pi) ^ 1 < (400 / pi) ^ 2"
    using big by (intro power_strict_increasing) simp_all
  then have ne: "(400 / pi) ^ 2 \<noteq> 400 / pi"
    by simp
  show "RHO * (1 / area_pipe) ^ 2 * d_pipe / MU \<noteq> RHO * (1 / area_pipe) * d_pipe / MU"
    unfolding inv using ne by (simp add: RHO_def MU_def d_pipe_def)
  have "(400 / pi) ^ 2 < (400 / pi) ^ 4"
    using big by (intro power_strict_increasing) simp_all
  then have ne4: "(400 / pi) ^ 4 \<noteq> (400 / pi) ^ 2"
    by simp
  show "length_pipe / d_pipe * (1 / area_pipe) ^ 4 / (2 * G)
       \<noteq> length_pipe / d_pipe * (1 / area_pipe) ^ 2 / (2 * G)"
    unfolding inv using ne4 by (simp add: length_pipe_def d_pipe_def G_def)
qed

text \<open>
  C7. For every flow rate \<open>Q\<close>, the energy residual is the head at the inlet at \<open>Q\<close>,
  minus the head at the outlet at \<open>Q\<close>, minus the pipe head loss at \<open>Q\<close> (an exception
  or a \<^verbatim>\<open>nan\<close> of the head loss is passed on).
\<close>

theorem energy_equation_is_head_balance:
  "energy_equation rs Q =
     (case head_f rs Q of
        Inl e \<Rightarrow> Inl e
      | Inr None \<Rightarrow> Inr None
      | Inr (Some hf) \<Rightarrow> Inr (Some (head_1 Q - head_2 Q - hf)))"
  by (simp add: energy_equation_def split: sum.split option.split)

text \<open>
  C9. For every flow rate \<open>Q\<close> the energy residual is even,
  \<open>energy_equation (-Q) = energy_equation Q\<close>, because \<open>Q\<close> enters each of the head and
  head-loss functions through \<open>(Q/area)^2\<close>: the root finder cannot tell forward from
  reverse flow.
\<close>

theorem energy_equation_even:
  "head_1 (- Q) = head_1 Q \<and> head_2 (- Q) = head_2 Q \<and> head_f rs (- Q) = head_f rs Q
   \<and> energy_equation rs (- Q) = energy_equation rs Q"
  by (simp only: energy_equation_def head_1_even head_2_even head_f_even)

end
